theory Spec2Isabelle
  imports Main
begin

section \<open>The differential-testing proxy of core/proxy.go\<close>

text \<open>
  A shallow embedding of \<^verbatim>\<open>core/proxy.go\<close>. Byte slices and Go strings are
  \<open>string\<close> (lists of bytes), Go's \<open>int\<close> is \<open>int\<close> (no arithmetic is done on
  status codes or modes, so the width plays no part), a Go \<open>error\<close> value is the
  text its \<open>Error()\<close> method yields, and \<open>nil\<close> errors are \<open>None\<close>.
  Calls of \<open>log.Debug\<close> and \<open>log.Error\<close> are left out: they return nothing and
  no result depends on them.
\<close>

type_synonym bytes = string

subsection \<open>Difference modes\<close>

type_synonym Difference = int

definition Strict :: Difference where "Strict = 0"
definition Subset :: Difference where "Subset = 1"
definition Schema :: Difference where "Schema = 2"

text \<open>Indexing a Go array: outside the bounds the program panics (\<open>None\<close>).\<close>

definition go_index :: "'a list \<Rightarrow> int \<Rightarrow> 'a option" where
  "go_index xs i = (if 0 \<le> i \<and> i < int (length xs) then Some (xs ! nat i) else None)"

definition names :: "string list" where
  "names = [''Strict'', ''Subset'', ''Schema'']"

text \<open>\<open>Difference.String\<close>, with the array access kept fallible.\<close>

definition Difference_String_checked :: "Difference \<Rightarrow> string option" where
  "Difference_String_checked difference =
     (if difference < Strict \<or> difference > Schema then Some ''Unknown''
      else go_index names difference)"

text \<open>
  \<open>Difference.String\<close> as its callers see it. The second branch stands for the
  panic of the array access; \<open>Difference_String_checked\<close> never takes it.
\<close>

definition Difference_String :: "Difference \<Rightarrow> string" where
  "Difference_String difference =
     (case Difference_String_checked difference of Some s \<Rightarrow> s | None \<Rightarrow> [])"

text \<open>\<open>NewDifference\<close>: the mode and the error, as Go returns both.\<close>

definition NewDifference :: "string \<Rightarrow> Difference \<times> string option" where
  "NewDifference difference =
     (if difference = ''Strict'' then (Strict, None)
      else if difference = ''Subset'' then (Subset, None)
      else if difference = ''Schema'' then (Schema, None)
      else (- 1, Some (''Cannot find '' @ difference @ '' difference mode'')))"

subsection \<open>Formatting integers\<close>

text \<open>The verb \<open>%d\<close> of \<open>fmt\<close>: decimal digits, with a minus sign below zero.\<close>

fun digits :: "nat \<Rightarrow> string" where
  "digits n =
     (if n < 10 then [char_of (48 + n)]
      else digits (n div 10) @ [char_of (48 + n mod 10)])"

declare digits.simps [simp del]

definition itoa :: "int \<Rightarrow> string" where
  "itoa i = (if i < 0 then CHR ''-'' # digits (nat (- i)) else digits (nat i))"

subsection \<open>Configuration and errors\<close>

record DiferenciaConfiguration =
  Port :: int
  Primary :: string
  Secondary :: string
  Candidate :: string
  StoreResults :: string
  DifferenceMode :: Difference
  NoiseDetection :: bool
  AllowUnsafeOperations :: bool

definition IsStoreResultsSet :: "DiferenciaConfiguration \<Rightarrow> bool" where
  "IsStoreResultsSet conf = (length (StoreResults conf) > 0)"

record DiferenciaError =
  code :: int
  message :: string

definition DiferenciaError_Error :: "DiferenciaError \<Rightarrow> string" where
  "DiferenciaError_Error e =
     ''with message: '' @ message e @ '', and code '' @ itoa (code e)"

subsection \<open>The constants of net/http that the proxy uses\<close>

definition StatusOK :: int where "StatusOK = 200"
definition StatusBadRequest :: int where "StatusBadRequest = 400"
definition StatusMethodNotAllowed :: int where "StatusMethodNotAllowed = 405"
definition StatusPreconditionFailed :: int where "StatusPreconditionFailed = 412"
definition StatusInternalServerError :: int where "StatusInternalServerError = 500"
definition StatusServiceUnavailable :: int where "StatusServiceUnavailable = 503"

definition MethodGet :: string where "MethodGet = ''GET''"
definition MethodHead :: string where "MethodHead = ''HEAD''"
definition MethodOptions :: string where "MethodOptions = ''OPTIONS''"

definition isSafeOperation :: "string \<Rightarrow> bool" where
  "isSafeOperation method =
     (method = MethodGet \<or> method = MethodOptions \<or> method = MethodHead)"

subsection \<open>Requests, responses and the collaborators of the proxy\<close>

text \<open>The fields of \<open>url.URL\<close> and \<open>http.Request\<close> that reach the proxy.\<close>

record URL =
  Scheme :: string
  Host :: string
  Path :: string
  RawQuery :: string

record Request =
  Method :: string
  RequestURL :: URL

type_synonym Header = "string \<rightharpoonup> string list"

text \<open>
  An \<open>http.Response\<close>. \<open>Body\<close> is what \<open>ioutil.ReadAll\<close> yields on the body:
  the bytes read and the error, if any.
\<close>

record Response =
  Body :: "bytes \<times> string option"
  StatusCode :: int
  Header :: Header

text \<open>
  Modelled from the spec: the package \<open>exporter\<close> is missing; an interaction is the
  captured (URL, body, status) of one upstream call, and the record handed to the
  exporter holds the Primary, Secondary and Candidate interactions, the mode name and
  the verdict. The constructors keep the arguments of \<open>exporter.CreateInteraction\<close>
  and \<open>exporter.CreateInteractions\<close>; \<open>ZeroInteraction\<close> is the zero value of
  \<open>var secondary exporter.Interaction\<close>.
\<close>

datatype Interaction = ZeroInteraction | CreateInteraction string bytes int

datatype Interactions =
  CreateInteractions Interaction Interaction Interaction string bool

text \<open>
  The functions of the repository that \<^verbatim>\<open>proxy.go\<close> calls and that are defined
  elsewhere are parameters. \<open>MakeRequest\<close> is the method of the \<open>HttpClient\<close>
  interface, over a client state \<open>'s\<close> (the network, or the index of a stub); it
  returns the error or the response. \<open>Detect\<close> fills a \<open>json.NoiseOperation\<close>
  (\<open>'n\<close>) or fails, \<open>Remove\<close> returns both cleaned documents and an error.
\<close>

record ('s, 'n) Env =
  MakeRequest :: "'s \<Rightarrow> Request \<Rightarrow> string \<Rightarrow> (string + Response) \<times> 's"
  CreateUrl :: "URL \<Rightarrow> string \<Rightarrow> string"
  Detect :: "bytes \<Rightarrow> bytes \<Rightarrow> string + 'n"
  Remove :: "'n \<Rightarrow> bytes \<Rightarrow> bytes \<Rightarrow> bytes \<times> bytes \<times> string option"
  CompareDocuments :: "bytes \<Rightarrow> bytes \<Rightarrow> string \<Rightarrow> bool"

text \<open>
  What a run does to the outside: the state of the client, the URLs passed to
  \<open>MakeRequest\<close>, the arguments of every \<open>json.CompareDocuments\<close> call and the
  arguments of every \<open>exporter.ExportToFile\<close> call, oldest first.
\<close>

record 's World =
  client :: 's
  calls :: "string list"
  compared :: "(bytes \<times> bytes \<times> string) list"
  exported :: "(string \<times> Interactions) list"

subsection \<open>getContent and compareResult\<close>

definition getContent ::
  "('s, 'n) Env \<Rightarrow> Request \<Rightarrow> string \<Rightarrow> 's World
     \<Rightarrow> (bytes \<times> int \<times> Header \<times> string option) \<times> 's World" where
  "getContent env r url w =
     (case MakeRequest env (client w) r url of
        (res, s') \<Rightarrow>
          (let w' = w\<lparr>client := s', calls := calls w @ [url]\<rparr> in
           case res of
             Inl err \<Rightarrow> (([], 0, Map.empty, Some err), w')
           | Inr resp \<Rightarrow>
               (case Body resp of
                  (bodyBytes, err) \<Rightarrow>
                    ((bodyBytes, StatusCode resp, Header resp, err), w'))))"

definition compareResult ::
  "('s, 'n) Env \<Rightarrow> DiferenciaConfiguration \<Rightarrow> bytes \<Rightarrow> bytes \<Rightarrow> int \<Rightarrow> int
     \<Rightarrow> 's World \<Rightarrow> bool \<times> 's World" where
  "compareResult env Config candidate primary candidateStatus primaryStatus w =
     (if primaryStatus = candidateStatus then
        (CompareDocuments env candidate primary (Difference_String (DifferenceMode Config)),
         w\<lparr>compared := compared w
              @ [(candidate, primary, Difference_String (DifferenceMode Config))]\<rparr>)
      else (False, w))"

subsection \<open>Diferencia\<close>

text \<open>
  Lines 129 to 158: the comparison, with or without noise cancellation. The block
  yields the error it returns with, or \<open>result\<close>. The variables
  \<open>secondaryFullURL\<close>, \<open>secondaryBodyContent\<close> and \<open>secondaryStatus\<close> that the
  block declares with \<open>:=\<close> are its own: they end with the block. The error of
  \<open>Remove\<close> is dropped, as in the source.
\<close>

definition Diferencia_compare ::
  "('s, 'n) Env \<Rightarrow> DiferenciaConfiguration \<Rightarrow> Request \<Rightarrow> string \<Rightarrow> bytes \<Rightarrow> int
     \<Rightarrow> string \<Rightarrow> bytes \<Rightarrow> int \<Rightarrow> 's World \<Rightarrow> (DiferenciaError + bool) \<times> 's World" where
  "Diferencia_compare env Config r primaryFullURL primaryBodyContent primaryStatus
       candidateFullURL candidateBodyContent candidateStatus w =
     (if NoiseDetection Config then
        (let secondaryFullURL = CreateUrl env (RequestURL r) (Secondary Config) in
         case getContent env r secondaryFullURL w of
           ((secondaryBodyContent, secondaryStatus, _, err), w3) \<Rightarrow>
             (case err of
                Some e \<Rightarrow>
                  (Inl \<lparr>code = StatusServiceUnavailable,
                        message = ''Error while connecting to Secondary site (''
                          @ candidateFullURL @ '') with error '' @ e\<rparr>, w3)
              | None \<Rightarrow>
                  if primaryStatus = secondaryStatus then
                    (case Detect env primaryBodyContent secondaryBodyContent of
                       Inl e \<Rightarrow>
                         (Inl \<lparr>code = StatusBadRequest,
                               message = ''Error detecting noise between ''
                                 @ primaryFullURL @ '' and '' @ secondaryFullURL
                                 @ ''. ('' @ e @ '')''\<rparr>, w3)
                     | Inr noiseOperation \<Rightarrow>
                         (case Remove env noiseOperation primaryBodyContent
                                 candidateBodyContent of
                            (primaryWithoutNoise, candidateWithoutNoise, _) \<Rightarrow>
                              (case compareResult env Config candidateWithoutNoise
                                      primaryWithoutNoise candidateStatus primaryStatus w3 of
                                 (result, w4) \<Rightarrow> (Inr result, w4))))
                  else
                    (Inl \<lparr>code = StatusBadRequest,
                          message = ''Status code between '' @ primaryFullURL @ ''(''
                            @ itoa primaryStatus @ '') and '' @ secondaryFullURL @ ''(''
                            @ itoa secondaryStatus @ '') are different''\<rparr>, w3)))
      else
        (case compareResult env Config candidateBodyContent primaryBodyContent
                candidateStatus primaryStatus w of
           (result, w4) \<Rightarrow> (Inr result, w4)))"

text \<open>
  Lines 160 to 172: the export. \<open>secondaryFullURL\<close>, \<open>secondaryBodyContent\<close> and
  \<open>secondaryStatus\<close> are the variables declared at lines 125 to 127, which nothing
  assigns: the empty string, the nil slice and 0.
\<close>

definition Diferencia_export ::
  "DiferenciaConfiguration \<Rightarrow> string \<Rightarrow> bytes \<Rightarrow> int \<Rightarrow> string \<Rightarrow> bytes \<Rightarrow> int
     \<Rightarrow> string \<Rightarrow> bytes \<Rightarrow> int \<Rightarrow> bool \<Rightarrow> 's World \<Rightarrow> 's World" where
  "Diferencia_export Config primaryFullURL primaryBodyContent primaryStatus
       candidateFullURL candidateBodyContent candidateStatus
       secondaryFullURL secondaryBodyContent secondaryStatus result w =
     (if IsStoreResultsSet Config then
        (let primary = CreateInteraction primaryFullURL primaryBodyContent primaryStatus;
             candidate = CreateInteraction candidateFullURL candidateBodyContent candidateStatus;
             secondary =
               (if NoiseDetection Config then
                  CreateInteraction secondaryFullURL secondaryBodyContent secondaryStatus
                else ZeroInteraction);
             interactions =
               CreateInteractions primary secondary candidate
                 (Difference_String (DifferenceMode Config)) result
         in w\<lparr>exported := exported w @ [(StoreResults Config, interactions)]\<rparr>)
      else w)"

definition Diferencia ::
  "('s, 'n) Env \<Rightarrow> DiferenciaConfiguration \<Rightarrow> Request \<Rightarrow> 's World
     \<Rightarrow> (bool \<times> DiferenciaError option) \<times> 's World" where
  "Diferencia env Config r w =
     (if \<not> AllowUnsafeOperations Config \<and> \<not> isSafeOperation (Method r) then
        ((False,
          Some \<lparr>code = StatusMethodNotAllowed,
                message = ''Unsafe operations are not allowed and '' @ Method r
                  @ '' method has been received''\<rparr>), w)
      else
        (let primaryFullURL = CreateUrl env (RequestURL r) (Primary Config) in
         case getContent env r primaryFullURL w of
           ((primaryBodyContent, primaryStatus, _, err), w1) \<Rightarrow>
             (case err of
                Some e \<Rightarrow>
                  ((False,
                    Some \<lparr>code = StatusServiceUnavailable,
                          message = ''Error while connecting to Primary site (''
                            @ primaryFullURL @ '') with '' @ e\<rparr>), w1)
              | None \<Rightarrow>
                  (let candidateFullURL = CreateUrl env (RequestURL r) (Candidate Config) in
                   case getContent env r candidateFullURL w1 of
                     ((candidateBodyContent, candidateStatus, _, err), w2) \<Rightarrow>
                       (case err of
                          Some e \<Rightarrow>
                            ((False,
                              Some \<lparr>code = StatusServiceUnavailable,
                                    message = ''Error while connecting to Candidate site (''
                                      @ candidateFullURL @ '') with '' @ e\<rparr>), w2)
                        | None \<Rightarrow>
                            (let secondaryFullURL = [];
                                 secondaryBodyContent = [];
                                 secondaryStatus = 0
                             in
                             case Diferencia_compare env Config r primaryFullURL
                                    primaryBodyContent primaryStatus candidateFullURL
                                    candidateBodyContent candidateStatus w2 of
                               (Inl de, w3) \<Rightarrow> ((False, Some de), w3)
                             | (Inr result, w3) \<Rightarrow>
                                 ((result, None),
                                  Diferencia_export Config primaryFullURL primaryBodyContent
                                    primaryStatus candidateFullURL candidateBodyContent
                                    candidateStatus secondaryFullURL secondaryBodyContent
                                    secondaryStatus result w3)))))))"

subsection \<open>The handler\<close>

text \<open>
  The calls that \<open>diferenciaHandler\<close> makes on its \<open>http.ResponseWriter\<close>, in
  order: \<open>WriteHeader\<close> with a status code, and \<open>fmt.Fprintf\<close> with a format
  string and no operands. Every error that \<open>Diferencia\<close> returns is a
  \<open>*DiferenciaError\<close>, so the type assertion of line 192 holds. Neither branch of
  the error case returns: control runs on to line 197 and then to line 201.
\<close>

datatype WriterCall = WriteHeader int | Fprintf string

definition diferenciaHandler ::
  "('s, 'n) Env \<Rightarrow> DiferenciaConfiguration \<Rightarrow> Request \<Rightarrow> 's World
     \<Rightarrow> WriterCall list \<times> 's World" where
  "diferenciaHandler env Config r w =
     (case Diferencia env Config r w of
        ((result, err), w') \<Rightarrow>
          ((case err of
              Some de \<Rightarrow>
                [WriteHeader (code de), Fprintf (message de),
                 WriteHeader StatusInternalServerError, Fprintf (DiferenciaError_Error de)]
            | None \<Rightarrow> [])
           @ [if result then WriteHeader StatusOK else WriteHeader StatusPreconditionFailed],
           w'))"

text \<open>
  The status that the client of an \<open>http.ResponseWriter\<close> receives is that of the
  first \<open>WriteHeader\<close> (later ones are ignored by net/http; a write before any
  \<open>WriteHeader\<close> sends 200). \<open>status_writes\<close> lists the codes of all
  \<open>WriteHeader\<close> calls and \<open>fprintf_formats\<close> the format strings of all
  \<open>fmt.Fprintf\<close> calls, in order. A format string is not the text written:
  \<open>fmt\<close> writes a format without a percent sign as it stands, and reads a percent
  sign as the start of a verb.
\<close>

fun sent_status :: "WriterCall list \<Rightarrow> int option" where
  "sent_status [] = None"
| "sent_status (WriteHeader c # _) = Some c"
| "sent_status (Fprintf _ # _) = Some StatusOK"

fun fprintf_formats :: "WriterCall list \<Rightarrow> string list" where
  "fprintf_formats [] = []"
| "fprintf_formats (WriteHeader _ # cs) = fprintf_formats cs"
| "fprintf_formats (Fprintf f # cs) = f # fprintf_formats cs"

fun status_writes :: "WriterCall list \<Rightarrow> int list" where
  "status_writes [] = []"
| "status_writes (WriteHeader c # cs) = c # status_writes cs"
| "status_writes (Fprintf _ # cs) = status_writes cs"

text \<open>The verdict and the HTTP code of the error in what \<open>Diferencia\<close> returns.\<close>

definition verdict :: "(bool \<times> DiferenciaError option) \<times> 'w \<Rightarrow> bool" where
  "verdict res = fst (fst res)"

definition error_code :: "(bool \<times> DiferenciaError option) \<times> 'w \<Rightarrow> int option" where
  "error_code res = map_option code (snd (fst res))"

text \<open>
  A client that answers like \<open>env\<close>'s, except that the headers of every response
  are rewritten by \<open>h\<close> (which may depend on the URL called).
\<close>

definition with_headers ::
  "(string \<Rightarrow> Header \<Rightarrow> Header) \<Rightarrow> ('s, 'n) Env \<Rightarrow> ('s, 'n) Env" where
  "with_headers h env =
     env\<lparr>MakeRequest :=
           (\<lambda>s r url.
              case MakeRequest env s r url of
                (res, s') \<Rightarrow>
                  ((case res of
                      Inl e \<Rightarrow> Inl e
                    | Inr resp \<Rightarrow> Inr (resp\<lparr>Header := h url (Header resp)\<rparr>)), s'))\<rparr>"

subsection \<open>UpdateConfiguration\<close>

text \<open>
  Modelled from the spec: \<open>UpdateConfiguration\<close> and its argument type
  \<open>DiferenciaConfigurationUpdate\<close> are missing from the sources (only the tests call
  them). The patch is a record of optional string fields; each present field is
  parsed, \<open>NoiseDetection\<close> as the literal \<open>true\<close> or \<open>false\<close> and \<open>Mode\<close> by
  \<open>NewDifference\<close>; only if every parse succeeds are the fields committed, all at
  once, and otherwise an error is returned and the configuration is left as it was.
  A field that the tests leave out of the struct literal is an absent field here.
  The fields \<open>Headers\<close> and \<open>IgnoreValues\<close> that the spec also lists have no place
  in the \<open>DiferenciaConfiguration\<close> of the sources and are left out.
\<close>

record DiferenciaConfigurationUpdate =
  UpdatePrimary :: "string option"
  UpdateSecondary :: "string option"
  UpdateCandidate :: "string option"
  UpdateMode :: "string option"
  UpdateNoiseDetection :: "string option"

definition parse_bool_literal :: "string \<Rightarrow> string + bool" where
  "parse_bool_literal s =
     (if s = ''true'' then Inr True
      else if s = ''false'' then Inr False
      else Inl (''Cannot parse '' @ s @ '' as boolean''))"

definition parse_mode :: "string \<Rightarrow> string + Difference" where
  "parse_mode s = (case NewDifference s of (d, None) \<Rightarrow> Inr d | (d, Some err) \<Rightarrow> Inl err)"

definition parse_optional :: "('a \<Rightarrow> string + 'b) \<Rightarrow> 'a option \<Rightarrow> string + 'b option" where
  "parse_optional parse field =
     (case field of
        None \<Rightarrow> Inr None
      | Some s \<Rightarrow> (case parse s of Inl err \<Rightarrow> Inl err | Inr v \<Rightarrow> Inr (Some v)))"

definition commit_field :: "'a option \<Rightarrow> 'a \<Rightarrow> 'a" where
  "commit_field parsed old = (case parsed of None \<Rightarrow> old | Some v \<Rightarrow> v)"

definition UpdateConfiguration ::
  "DiferenciaConfiguration \<Rightarrow> DiferenciaConfigurationUpdate
     \<Rightarrow> DiferenciaConfiguration \<times> string option" where
  "UpdateConfiguration conf patch =
     (case parse_optional parse_mode (UpdateMode patch) of
        Inl err \<Rightarrow> (conf, Some err)
      | Inr mode \<Rightarrow>
          (case parse_optional parse_bool_literal (UpdateNoiseDetection patch) of
             Inl err \<Rightarrow> (conf, Some err)
           | Inr noise \<Rightarrow>
               (conf\<lparr>Primary := commit_field (UpdatePrimary patch) (Primary conf),
                      Secondary := commit_field (UpdateSecondary patch) (Secondary conf),
                      Candidate := commit_field (UpdateCandidate patch) (Candidate conf),
                      DifferenceMode := commit_field mode (DifferenceMode conf),
                      NoiseDetection := commit_field noise (NoiseDetection conf)\<rparr>,
                None)))"

text \<open>A present field of the patch that does not parse.\<close>

definition mode_unparsable :: "DiferenciaConfigurationUpdate \<Rightarrow> bool" where
  "mode_unparsable patch =
     (case UpdateMode patch of
        None \<Rightarrow> False
      | Some m \<Rightarrow> m \<noteq> ''Strict'' \<and> m \<noteq> ''Subset'' \<and> m \<noteq> ''Schema'')"

definition noise_unparsable :: "DiferenciaConfigurationUpdate \<Rightarrow> bool" where
  "noise_unparsable patch =
     (case UpdateNoiseDetection patch of
        None \<Rightarrow> False
      | Some s \<Rightarrow> s \<noteq> ''true'' \<and> s \<noteq> ''false'')"

subsection \<open>The header comparison\<close>














subsection \<open>Concrete inputs\<close>

text \<open>
  A client that replays recorded answers, one per call, and fails once they are used
  up; with it, stand-ins for the other collaborators: URLs are the base followed by
  the path, noise detection fails on an empty body and finds no noise otherwise,
  removal changes nothing, and two documents compare equal when they are the same
  bytes.
\<close>

definition scripted_MakeRequest ::
  "(string + Response) list \<Rightarrow> Request \<Rightarrow> string
     \<Rightarrow> (string + Response) \<times> (string + Response) list" where
  "scripted_MakeRequest s r url =
     (case s of [] \<Rightarrow> (Inl ''no response recorded'', []) | x # xs \<Rightarrow> (x, xs))"

definition sample_env :: "((string + Response) list, unit) Env" where
  "sample_env =
     \<lparr>MakeRequest = scripted_MakeRequest,
      CreateUrl = (\<lambda>u base. base @ Path u),
      Detect = (\<lambda>p s. if p = [] \<or> s = [] then Inl ''unexpected end of JSON input''
                       else Inr ()),
      Remove = (\<lambda>n p c. (p, c, None)),
      CompareDocuments = (\<lambda>c p m. c = p)\<rparr>"

definition sample_request :: "string \<Rightarrow> Request" where
  "sample_request m =
     \<lparr>Method = m,
      RequestURL = \<lparr>Scheme = ''http'', Host = ''localhost:8080'', Path = ''/now'',
                    RawQuery = []\<rparr>\<rparr>"

definition sample_config :: "bool \<Rightarrow> string \<Rightarrow> DiferenciaConfiguration" where
  "sample_config noise store =
     \<lparr>Port = 8080, Primary = ''http://primary'', Secondary = ''http://secondary'',
      Candidate = ''http://candidate'', StoreResults = store, DifferenceMode = Strict,
      NoiseDetection = noise, AllowUnsafeOperations = False\<rparr>"

definition respond :: "int \<Rightarrow> bytes \<Rightarrow> Header \<Rightarrow> string + Response" where
  "respond st b h = Inr \<lparr>Body = (b, None), StatusCode = st, Header = h\<rparr>"

definition world :: "'s \<Rightarrow> string list \<Rightarrow> 's World" where
  "world s urls = \<lparr>client = s, calls = urls, compared = [], exported = []\<rparr>"

definition no_patch :: DiferenciaConfigurationUpdate where
  "no_patch =
     \<lparr>UpdatePrimary = None, UpdateSecondary = None, UpdateCandidate = None,
      UpdateMode = None, UpdateNoiseDetection = None\<rparr>"

section \<open>Basic facts\<close>

lemmas http_defs =
  StatusOK_def StatusBadRequest_def StatusMethodNotAllowed_def
  StatusPreconditionFailed_def StatusInternalServerError_def
  StatusServiceUnavailable_def MethodGet_def MethodHead_def MethodOptions_def

lemmas sample_defs =
  scripted_MakeRequest_def sample_env_def sample_request_def sample_config_def
  respond_def world_def

lemma Difference_String_values:
  "Difference_String Strict = ''Strict''"
  "Difference_String Subset = ''Subset''"
  "Difference_String Schema = ''Schema''"
  by (simp_all add: Difference_String_def Difference_String_checked_def go_index_def
      names_def Strict_def Subset_def Schema_def)

lemma getContent_keeps_logs:
  assumes "getContent env r url w = (x, w')"
  shows "compared w' = compared w" and "exported w' = exported w"
    and "calls w' = calls w @ [url]"
  using assms
  by (auto simp: getContent_def Let_def split: prod.splits sum.splits)

lemma compareResult_mismatch:
  "ps \<noteq> cs \<Longrightarrow> compareResult env Config c p cs ps w = (False, w)"
  by (simp add: compareResult_def)

lemma Diferencia_export_keeps_compared:
  "compared (Diferencia_export Config pu pb ps cu cb cs su sb ss res w) = compared w"
  by (simp add: Diferencia_export_def Let_def)

lemma Diferencia_compare_mismatch:
  assumes "ps \<noteq> cs"
    and "Diferencia_compare env Config r pu pb ps cu cb cs w = (x, w')"
  shows "compared w' = compared w \<and> (x = Inr False \<or> (\<exists>de. x = Inl de))
         \<and> (\<not> NoiseDetection Config \<longrightarrow> x = Inr False)"
proof (cases "NoiseDetection Config")
  case False
  with assms show ?thesis
    by (simp add: Diferencia_compare_def compareResult_mismatch)
next
  case True
  obtain sb ss sh serr w3 where
    s: "getContent env r (CreateUrl env (RequestURL r) (Secondary Config)) w
          = ((sb, ss, sh, serr), w3)"
    by (metis prod_cases4 surj_pair)
  have w3: "compared w3 = compared w"
    by (rule getContent_keeps_logs(1) [OF s])
  from assms True s w3 show ?thesis
    by (auto simp: Diferencia_compare_def compareResult_mismatch Let_def
        split: option.splits if_splits sum.splits prod.splits)
qed

lemma getContent_with_headers:
  "getContent (with_headers h env) r url w =
     (case getContent env r url w of
        ((b, st, hdr, err), w') \<Rightarrow>
          ((b, st, (case MakeRequest env (client w) r url of
                      (Inl e, s') \<Rightarrow> hdr
                    | (Inr resp, s') \<Rightarrow> h url hdr), err), w'))"
  by (simp add: getContent_def with_headers_def Let_def split: prod.splits sum.splits)

lemma with_headers_fields:
  "CreateUrl (with_headers h env) = CreateUrl env"
  "Detect (with_headers h env) = Detect env"
  "Remove (with_headers h env) = Remove env"
  "CompareDocuments (with_headers h env) = CompareDocuments env"
  by (simp_all add: with_headers_def)

lemma compareResult_with_headers:
  "compareResult (with_headers h env) = compareResult env"
  by (intro ext) (simp add: compareResult_def with_headers_fields)

lemma Diferencia_compare_with_headers:
  "Diferencia_compare (with_headers h env) Config r pu pb ps cu cb cs w
     = Diferencia_compare env Config r pu pb ps cu cb cs w"
  by (simp add: Diferencia_compare_def getContent_with_headers with_headers_fields
      compareResult_with_headers Let_def
      split: prod.splits option.splits sum.splits)

lemmas run_defs =
  Diferencia_def Diferencia_compare_def Diferencia_export_def getContent_def
  compareResult_def isSafeOperation_def IsStoreResultsSet_def http_defs Let_def

lemma sample_gate:
  "AllowUnsafeOperations (sample_config n st)
     \<or> isSafeOperation (Method (sample_request ''GET''))"
  by (simp add: sample_request_def isSafeOperation_def http_defs)

lemma getContent_transport_error:
  "MakeRequest env (client w) r url = (Inl e, s') \<Longrightarrow>
     fst (getContent env r url w) = ([], 0, Map.empty, Some e)"
  by (simp add: getContent_def Let_def)

lemma getContent_unreadable_body:
  "MakeRequest env (client w) r url = (Inr resp, s') \<Longrightarrow> Body resp = (b, Some e) \<Longrightarrow>
     fst (getContent env r url w) = (b, StatusCode resp, Header resp, Some e)"
  by (simp add: getContent_def Let_def)

section \<open>The safety gate\<close>

text \<open>
  C1. When \<open>AllowUnsafeOperations\<close> is false and the method of the request is not
  GET, OPTIONS or HEAD, \<open>Diferencia\<close> returns the verdict false with an error of
  code 405, and the world it returns is the one it was given: the client has not been
  called and the list of \<open>MakeRequest\<close> calls has not grown.
\<close>

theorem unsafe_method_rejected:
  assumes "\<not> AllowUnsafeOperations Config"
    and "Method r \<notin> {''GET'', ''OPTIONS'', ''HEAD''}"
  shows "Diferencia env Config r w =
           ((False,
             Some \<lparr>code = 405,
                   message = ''Unsafe operations are not allowed and '' @ Method r
                     @ '' method has been received''\<rparr>), w)"
proof -
  from assms(2) have "\<not> isSafeOperation (Method r)"
    by (simp add: isSafeOperation_def http_defs)
  with assms(1) show ?thesis
    by (simp add: Diferencia_def StatusMethodNotAllowed_def)
qed

text \<open>
  A POST request under a configuration that does not allow unsafe operations.
\<close>

theorem unsafe_method_rejected_witness:
  "\<not> AllowUnsafeOperations (sample_config False [])
   \<and> Method (sample_request ''POST'') \<notin> {''GET'', ''OPTIONS'', ''HEAD''}
   \<and> Diferencia sample_env (sample_config False []) (sample_request ''POST'')
         (world [respond 200 ''[1]'' Map.empty, respond 200 ''[1]'' Map.empty] []) =
       ((False,
         Some \<lparr>code = 405,
               message = ''Unsafe operations are not allowed and POST method has been received''\<rparr>),
        world [respond 200 ''[1]'' Map.empty, respond 200 ''[1]'' Map.empty] [])"
proof -
  have a: "\<not> AllowUnsafeOperations (sample_config False [])"
    by (simp add: sample_config_def)
  have b: "Method (sample_request ''POST'') \<notin> {''GET'', ''OPTIONS'', ''HEAD''}"
    by (simp add: sample_request_def)
  have m: "Method (sample_request ''POST'') = ''POST''"
    by (simp add: sample_request_def)
  show ?thesis
    using a b unsafe_method_rejected [OF a b, of sample_env
        "world [respond 200 ''[1]'' Map.empty, respond 200 ''[1]'' Map.empty] []"]
    unfolding m by simp
qed

section \<open>Failing upstreams\<close>

text \<open>
  C5. For a request that passes the safety gate, name the outcomes of the Primary
  call, of the Candidate call that follows it and of the Secondary call that follows
  that one. If the Primary or the Candidate call ends with an error (a transport error
  of \<open>MakeRequest\<close> or an error reading the body: both are the error that
  \<open>getContent\<close> returns), or if \<open>NoiseDetection\<close> is on and the Secondary call
  ends with an error, \<open>Diferencia\<close> returns the verdict false and an error of
  code 503.
\<close>

theorem upstream_failure_unavailable:
  assumes gate: "AllowUnsafeOperations Config \<or> isSafeOperation (Method r)"
    and p: "getContent env r (CreateUrl env (RequestURL r) (Primary Config)) w
              = ((pb, ps, ph, perr), w1)"
    and c: "getContent env r (CreateUrl env (RequestURL r) (Candidate Config)) w1
              = ((cb, cs, ch, cerr), w2)"
    and s: "getContent env r (CreateUrl env (RequestURL r) (Secondary Config)) w2
              = ((sb, ss, sh, serr), w3)"
    and failure: "perr \<noteq> None \<or> cerr \<noteq> None \<or> (NoiseDetection Config \<and> serr \<noteq> None)"
  shows "verdict (Diferencia env Config r w) = False
         \<and> error_code (Diferencia env Config r w) = Some 503"
proof (cases perr)
  case (Some e)
  with gate p show ?thesis
    by (auto simp: Diferencia_def verdict_def error_code_def StatusServiceUnavailable_def)
next
  case pnone: None
  show ?thesis
  proof (cases cerr)
    case (Some e)
    with gate p c pnone show ?thesis
      by (auto simp: Diferencia_def verdict_def error_code_def StatusServiceUnavailable_def)
  next
    case cnone: None
    with failure pnone obtain e where noise: "NoiseDetection Config" and se: "serr = Some e"
      by auto
    have "Diferencia_compare env Config r (CreateUrl env (RequestURL r) (Primary Config))
            pb ps (CreateUrl env (RequestURL r) (Candidate Config)) cb cs w2
          = (Inl \<lparr>code = 503,
                  message = ''Error while connecting to Secondary site (''
                    @ CreateUrl env (RequestURL r) (Candidate Config)
                    @ '') with error '' @ e\<rparr>, w3)"
      using noise s se
      by (simp add: Diferencia_compare_def StatusServiceUnavailable_def)
    with gate p c pnone cnone show ?thesis
      by (auto simp: Diferencia_def verdict_def error_code_def)
  qed
qed

text \<open>
  A Candidate whose body cannot be read to the end, followed by a Secondary that
  refuses the connection.
\<close>

theorem upstream_failure_unavailable_witness:
  "(AllowUnsafeOperations (sample_config True [])
      \<or> isSafeOperation (Method (sample_request ''GET'')))
   \<and> getContent sample_env (sample_request ''GET'')
        (CreateUrl sample_env (RequestURL (sample_request ''GET''))
           (Primary (sample_config True [])))
        (world [respond 200 ''[1]'' Map.empty,
                Inr \<lparr>Body = (''['', Some ''unexpected EOF''), StatusCode = 200,
                      Header = Map.empty\<rparr>,
                Inl ''connection refused''] [])
       = ((''[1]'', 200, Map.empty, None),
          world [Inr \<lparr>Body = (''['', Some ''unexpected EOF''), StatusCode = 200,
                       Header = Map.empty\<rparr>,
                 Inl ''connection refused''] [''http://primary/now''])
   \<and> getContent sample_env (sample_request ''GET'')
        (CreateUrl sample_env (RequestURL (sample_request ''GET''))
           (Candidate (sample_config True [])))
        (world [Inr \<lparr>Body = (''['', Some ''unexpected EOF''), StatusCode = 200,
                      Header = Map.empty\<rparr>,
                Inl ''connection refused''] [''http://primary/now''])
       = ((''['', 200, Map.empty, Some ''unexpected EOF''),
          world [Inl ''connection refused''] [''http://primary/now'', ''http://candidate/now''])
   \<and> getContent sample_env (sample_request ''GET'')
        (CreateUrl sample_env (RequestURL (sample_request ''GET''))
           (Secondary (sample_config True [])))
        (world [Inl ''connection refused''] [''http://primary/now'', ''http://candidate/now''])
       = (([], 0, Map.empty, Some ''connection refused''),
          world [] [''http://primary/now'', ''http://candidate/now'', ''http://secondary/now''])
   \<and> Some ''unexpected EOF'' \<noteq> None
   \<and> NoiseDetection (sample_config True [])
   \<and> Some ''connection refused'' \<noteq> None
   \<and> verdict (Diferencia sample_env (sample_config True []) (sample_request ''GET'')
        (world [respond 200 ''[1]'' Map.empty,
                Inr \<lparr>Body = (''['', Some ''unexpected EOF''), StatusCode = 200,
                      Header = Map.empty\<rparr>,
                Inl ''connection refused''] [])) = False
   \<and> error_code (Diferencia sample_env (sample_config True []) (sample_request ''GET'')
        (world [respond 200 ''[1]'' Map.empty,
                Inr \<lparr>Body = (''['', Some ''unexpected EOF''), StatusCode = 200,
                      Header = Map.empty\<rparr>,
                Inl ''connection refused''] [])) = Some 503"
proof -
  let ?bad = "Inr \<lparr>Body = (''['', Some ''unexpected EOF''), StatusCode = 200,
                      Header = Map.empty\<rparr> :: string + Response"
  let ?r = "sample_request ''GET''"
  let ?cfg = "sample_config True []"
  let ?w = "world [respond 200 ''[1]'' Map.empty, ?bad, Inl ''connection refused''] []"
  let ?w1 = "world [?bad, Inl ''connection refused''] [''http://primary/now'']"
  let ?w2 = "world [Inl ''connection refused''] [''http://primary/now'', ''http://candidate/now'']"
  let ?w3 = "world ([] :: (string + Response) list)
               [''http://primary/now'', ''http://candidate/now'', ''http://secondary/now'']"
  have gate: "AllowUnsafeOperations ?cfg \<or> isSafeOperation (Method ?r)"
    by (rule sample_gate)
  have p: "getContent sample_env ?r (CreateUrl sample_env (RequestURL ?r) (Primary ?cfg)) ?w
             = ((''[1]'', 200, Map.empty, None), ?w1)"
    by (simp add: getContent_def sample_defs)
  have c: "getContent sample_env ?r (CreateUrl sample_env (RequestURL ?r) (Candidate ?cfg)) ?w1
             = ((''['', 200, Map.empty, Some ''unexpected EOF''), ?w2)"
    by (simp add: getContent_def sample_defs)
  have s: "getContent sample_env ?r (CreateUrl sample_env (RequestURL ?r) (Secondary ?cfg)) ?w2
             = (([], 0, Map.empty, Some ''connection refused''), ?w3)"
    by (simp add: getContent_def sample_defs)
  have f: "(None :: string option) \<noteq> None \<or> Some ''unexpected EOF'' \<noteq> None
             \<or> (NoiseDetection ?cfg \<and> Some ''connection refused'' \<noteq> None)"
    by simp
  have n: "NoiseDetection ?cfg" by (simp add: sample_config_def)
  note r = upstream_failure_unavailable [OF gate p c s f]
  from gate p c s n r show ?thesis by (intro conjI) simp_all
qed

section \<open>The precondition of noise cancellation\<close>

text \<open>
  C6. With \<open>NoiseDetection\<close> on, for a request that passes the safety gate and whose
  three upstream calls succeed: if the Primary and Secondary status codes differ, or
  \<open>Detect\<close> fails on the Primary and Secondary bodies, \<open>Diferencia\<close> returns the
  verdict false and an error of code 400, and \<open>json.CompareDocuments\<close> has not been
  called (the list of comparisons is the one at the start).
\<close>

theorem noise_precondition_bad_request:
  assumes gate: "AllowUnsafeOperations Config \<or> isSafeOperation (Method r)"
    and p: "getContent env r (CreateUrl env (RequestURL r) (Primary Config)) w
              = ((pb, ps, ph, None), w1)"
    and c: "getContent env r (CreateUrl env (RequestURL r) (Candidate Config)) w1
              = ((cb, cs, ch, None), w2)"
    and s: "getContent env r (CreateUrl env (RequestURL r) (Secondary Config)) w2
              = ((sb, ss, sh, None), w3)"
    and noise: "NoiseDetection Config"
    and pre: "ps \<noteq> ss \<or> (\<exists>e. Detect env pb sb = Inl e)"
  shows "verdict (Diferencia env Config r w) = False
         \<and> error_code (Diferencia env Config r w) = Some 400
         \<and> compared (snd (Diferencia env Config r w)) = compared w"
proof -
  have "\<exists>m. Diferencia_compare env Config r (CreateUrl env (RequestURL r) (Primary Config))
            pb ps (CreateUrl env (RequestURL r) (Candidate Config)) cb cs w2
          = (Inl \<lparr>code = 400, message = m\<rparr>, w3)"
  proof (cases "ps = ss")
    case False
    with noise s show ?thesis
      by (simp add: Diferencia_compare_def StatusBadRequest_def)
  next
    case True
    with pre obtain e where "Detect env pb sb = Inl e" by auto
    with True noise s show ?thesis
      by (simp add: Diferencia_compare_def StatusBadRequest_def)
  qed
  then obtain m where
    "Diferencia_compare env Config r (CreateUrl env (RequestURL r) (Primary Config))
            pb ps (CreateUrl env (RequestURL r) (Candidate Config)) cb cs w2
          = (Inl \<lparr>code = 400, message = m\<rparr>, w3)" ..
  with gate p c have res: "Diferencia env Config r w
      = ((False, Some \<lparr>code = 400, message = m\<rparr>), w3)"
    by (auto simp: Diferencia_def)
  have "compared w3 = compared w"
    using getContent_keeps_logs(1) [OF p] getContent_keeps_logs(1) [OF c]
      getContent_keeps_logs(1) [OF s] by simp
  with res show ?thesis
    by (simp add: verdict_def error_code_def)
qed

text \<open>
  A Secondary that answers 500 where the Primary answers 200.
\<close>

theorem noise_precondition_bad_request_witness:
  "(AllowUnsafeOperations (sample_config True [])
      \<or> isSafeOperation (Method (sample_request ''GET'')))
   \<and> getContent sample_env (sample_request ''GET'')
        (CreateUrl sample_env (RequestURL (sample_request ''GET''))
           (Primary (sample_config True [])))
        (world [respond 200 ''[1]'' Map.empty, respond 200 ''[1]'' Map.empty,
                respond 500 ''[1]'' Map.empty] [])
       = ((''[1]'', 200, Map.empty, None),
          world [respond 200 ''[1]'' Map.empty, respond 500 ''[1]'' Map.empty]
            [''http://primary/now''])
   \<and> getContent sample_env (sample_request ''GET'')
        (CreateUrl sample_env (RequestURL (sample_request ''GET''))
           (Candidate (sample_config True [])))
        (world [respond 200 ''[1]'' Map.empty, respond 500 ''[1]'' Map.empty]
           [''http://primary/now''])
       = ((''[1]'', 200, Map.empty, None),
          world [respond 500 ''[1]'' Map.empty]
            [''http://primary/now'', ''http://candidate/now''])
   \<and> getContent sample_env (sample_request ''GET'')
        (CreateUrl sample_env (RequestURL (sample_request ''GET''))
           (Secondary (sample_config True [])))
        (world [respond 500 ''[1]'' Map.empty]
           [''http://primary/now'', ''http://candidate/now''])
       = ((''[1]'', 500, Map.empty, None),
          world [] [''http://primary/now'', ''http://candidate/now'', ''http://secondary/now''])
   \<and> NoiseDetection (sample_config True [])
   \<and> (200::int) \<noteq> 500
   \<and> verdict (Diferencia sample_env (sample_config True []) (sample_request ''GET'')
        (world [respond 200 ''[1]'' Map.empty, respond 200 ''[1]'' Map.empty,
                respond 500 ''[1]'' Map.empty] [])) = False
   \<and> error_code (Diferencia sample_env (sample_config True []) (sample_request ''GET'')
        (world [respond 200 ''[1]'' Map.empty, respond 200 ''[1]'' Map.empty,
                respond 500 ''[1]'' Map.empty] [])) = Some 400
   \<and> compared (snd (Diferencia sample_env (sample_config True []) (sample_request ''GET'')
        (world [respond 200 ''[1]'' Map.empty, respond 200 ''[1]'' Map.empty,
                respond 500 ''[1]'' Map.empty] []))) = []"
proof -
  let ?r = "sample_request ''GET''"
  let ?cfg = "sample_config True []"
  let ?w = "world [respond 200 ''[1]'' Map.empty, respond 200 ''[1]'' Map.empty,
                respond 500 ''[1]'' Map.empty] []"
  let ?w1 = "world [respond 200 ''[1]'' Map.empty, respond 500 ''[1]'' Map.empty]
            [''http://primary/now'']"
  let ?w2 = "world [respond 500 ''[1]'' Map.empty]
            [''http://primary/now'', ''http://candidate/now'']"
  let ?w3 = "world ([] :: (string + Response) list)
               [''http://primary/now'', ''http://candidate/now'', ''http://secondary/now'']"
  have gate: "AllowUnsafeOperations ?cfg \<or> isSafeOperation (Method ?r)"
    by (rule sample_gate)
  have p: "getContent sample_env ?r (CreateUrl sample_env (RequestURL ?r) (Primary ?cfg)) ?w
             = ((''[1]'', 200, Map.empty, None), ?w1)"
    by (simp add: getContent_def sample_defs)
  have c: "getContent sample_env ?r (CreateUrl sample_env (RequestURL ?r) (Candidate ?cfg)) ?w1
             = ((''[1]'', 200, Map.empty, None), ?w2)"
    by (simp add: getContent_def sample_defs)
  have s: "getContent sample_env ?r (CreateUrl sample_env (RequestURL ?r) (Secondary ?cfg)) ?w2
             = ((''[1]'', 500, Map.empty, None), ?w3)"
    by (simp add: getContent_def sample_defs)
  have n: "NoiseDetection ?cfg" by (simp add: sample_config_def)
  have f: "(200::int) \<noteq> 500 \<or> (\<exists>e. Detect sample_env ''[1]'' ''[1]'' = Inl e)"
    by simp
  note r = noise_precondition_bad_request [OF gate p c s n f]
  have e: "compared ?w = []" by (simp add: world_def)
  from gate p c s n f r e show ?thesis by (intro conjI) simp_all
qed

section \<open>Differing status codes\<close>

text \<open>
  C2, as amended. For a request that passes the safety gate and whose Primary and
  Candidate calls succeed with different status codes: the verdict of \<open>Diferencia\<close>
  is false and the bodies are not compared (\<open>json.CompareDocuments\<close> is not
  called). The difference of status does not abort the run: no error is returned
  with \<open>NoiseDetection\<close> off, nor with it on when the Secondary call succeeds with
  the status code of the Primary and \<open>Detect\<close> succeeds. What \<open>Diferencia\<close>
  returns is the verdict and the error only; it holds no status or body difference.
\<close>

theorem status_mismatch_verdict_false:
  assumes gate: "AllowUnsafeOperations Config \<or> isSafeOperation (Method r)"
    and p: "getContent env r (CreateUrl env (RequestURL r) (Primary Config)) w
              = ((pb, ps, ph, None), w1)"
    and c: "getContent env r (CreateUrl env (RequestURL r) (Candidate Config)) w1
              = ((cb, cs, ch, None), w2)"
    and differ: "ps \<noteq> cs"
  shows "verdict (Diferencia env Config r w) = False
         \<and> compared (snd (Diferencia env Config r w)) = compared w
         \<and> (\<not> NoiseDetection Config \<longrightarrow> snd (fst (Diferencia env Config r w)) = None)
         \<and> (\<forall>sb sh w3 n.
               getContent env r (CreateUrl env (RequestURL r) (Secondary Config)) w2
                 = ((sb, ps, sh, None), w3)
               \<longrightarrow> Detect env pb sb = Inr n
               \<longrightarrow> snd (fst (Diferencia env Config r w)) = None)"
proof -
  obtain x w' where
    d: "Diferencia_compare env Config r (CreateUrl env (RequestURL r) (Primary Config))
          pb ps (CreateUrl env (RequestURL r) (Candidate Config)) cb cs w2 = (x, w')"
    by (cases "Diferencia_compare env Config r (CreateUrl env (RequestURL r) (Primary Config))
          pb ps (CreateUrl env (RequestURL r) (Candidate Config)) cb cs w2")
  note m = Diferencia_compare_mismatch [OF differ d]
  have "compared w2 = compared w"
    using getContent_keeps_logs(1) [OF p] getContent_keeps_logs(1) [OF c] by simp
  with m have cw: "compared w' = compared w" by simp
  have ok: "x = Inr False"
    if "getContent env r (CreateUrl env (RequestURL r) (Secondary Config)) w2
          = ((sb, ps, sh, None), w3)"
      and "Detect env pb sb = Inr n"
    for sb sh w3 n
  proof (cases "NoiseDetection Config")
    case False
    with m show ?thesis by simp
  next
    case True
    with that d differ show ?thesis
      by (auto simp: Diferencia_compare_def compareResult_mismatch split: prod.splits)
  qed
  from m have "x = Inr False \<or> (\<exists>de. x = Inl de)" by simp
  then show ?thesis
  proof
    assume "x = Inr False"
    with gate p c d cw show ?thesis
      by (auto simp: Diferencia_def verdict_def Diferencia_export_keeps_compared)
  next
    assume "\<exists>de. x = Inl de"
    then obtain de where x: "x = Inl de" ..
    with ok have no: "\<And>sb sh w3 n.
        getContent env r (CreateUrl env (RequestURL r) (Secondary Config)) w2
          = ((sb, ps, sh, None), w3) \<Longrightarrow> Detect env pb sb = Inr n \<Longrightarrow> False"
      by fastforce
    from x gate p c d cw m have "verdict (Diferencia env Config r w) = False
         \<and> compared (snd (Diferencia env Config r w)) = compared w
         \<and> (\<not> NoiseDetection Config \<longrightarrow> snd (fst (Diferencia env Config r w)) = None)"
      by (auto simp: Diferencia_def verdict_def)
    with no show ?thesis by blast
  qed
qed

text \<open>
  Primary 200 against Candidate 201, without noise detection, and with noise
  detection and a Secondary of status 200.
\<close>

theorem status_mismatch_verdict_false_witness:
  "(AllowUnsafeOperations (sample_config False [])
      \<or> isSafeOperation (Method (sample_request ''GET'')))
   \<and> getContent sample_env (sample_request ''GET'')
        (CreateUrl sample_env (RequestURL (sample_request ''GET''))
           (Primary (sample_config False [])))
        (world [respond 200 ''[1]'' Map.empty, respond 201 ''[1]'' Map.empty] [])
       = ((''[1]'', 200, Map.empty, None),
          world [respond 201 ''[1]'' Map.empty] [''http://primary/now''])
   \<and> getContent sample_env (sample_request ''GET'')
        (CreateUrl sample_env (RequestURL (sample_request ''GET''))
           (Candidate (sample_config False [])))
        (world [respond 201 ''[1]'' Map.empty] [''http://primary/now''])
       = ((''[1]'', 201, Map.empty, None),
          world [] [''http://primary/now'', ''http://candidate/now''])
   \<and> (200::int) \<noteq> 201
   \<and> \<not> NoiseDetection (sample_config False [])
   \<and> verdict (Diferencia sample_env (sample_config False []) (sample_request ''GET'')
        (world [respond 200 ''[1]'' Map.empty, respond 201 ''[1]'' Map.empty] [])) = False
   \<and> compared (snd (Diferencia sample_env (sample_config False []) (sample_request ''GET'')
        (world [respond 200 ''[1]'' Map.empty, respond 201 ''[1]'' Map.empty] []))) = []
   \<and> snd (fst (Diferencia sample_env (sample_config False []) (sample_request ''GET'')
        (world [respond 200 ''[1]'' Map.empty, respond 201 ''[1]'' Map.empty] []))) = None
   \<and> getContent sample_env (sample_request ''GET'')
        (CreateUrl sample_env (RequestURL (sample_request ''GET''))
           (Primary (sample_config True [])))
        (world [respond 200 ''[1]'' Map.empty, respond 201 ''[1]'' Map.empty,
                respond 200 ''[2]'' Map.empty] [])
       = ((''[1]'', 200, Map.empty, None),
          world [respond 201 ''[1]'' Map.empty, respond 200 ''[2]'' Map.empty]
            [''http://primary/now''])
   \<and> getContent sample_env (sample_request ''GET'')
        (CreateUrl sample_env (RequestURL (sample_request ''GET''))
           (Candidate (sample_config True [])))
        (world [respond 201 ''[1]'' Map.empty, respond 200 ''[2]'' Map.empty]
           [''http://primary/now''])
       = ((''[1]'', 201, Map.empty, None),
          world [respond 200 ''[2]'' Map.empty]
            [''http://primary/now'', ''http://candidate/now''])
   \<and> getContent sample_env (sample_request ''GET'')
        (CreateUrl sample_env (RequestURL (sample_request ''GET''))
           (Secondary (sample_config True [])))
        (world [respond 200 ''[2]'' Map.empty]
           [''http://primary/now'', ''http://candidate/now''])
       = ((''[2]'', 200, Map.empty, None),
          world [] [''http://primary/now'', ''http://candidate/now'', ''http://secondary/now''])
   \<and> Detect sample_env ''[1]'' ''[2]'' = Inr ()
   \<and> fst (Diferencia sample_env (sample_config True []) (sample_request ''GET'')
        (world [respond 200 ''[1]'' Map.empty, respond 201 ''[1]'' Map.empty,
                respond 200 ''[2]'' Map.empty] [])) = (False, None)"
proof -
  let ?r = "sample_request ''GET''"
  let ?off = "sample_config False []"
  let ?on = "sample_config True []"
  let ?w = "world [respond 200 ''[1]'' Map.empty, respond 201 ''[1]'' Map.empty] []"
  let ?w1 = "world [respond 201 ''[1]'' Map.empty] [''http://primary/now'']"
  let ?w2 = "world ([] :: (string + Response) list)
               [''http://primary/now'', ''http://candidate/now'']"
  let ?v = "world [respond 200 ''[1]'' Map.empty, respond 201 ''[1]'' Map.empty,
                respond 200 ''[2]'' Map.empty] []"
  let ?v1 = "world [respond 201 ''[1]'' Map.empty, respond 200 ''[2]'' Map.empty]
            [''http://primary/now'']"
  let ?v2 = "world [respond 200 ''[2]'' Map.empty]
            [''http://primary/now'', ''http://candidate/now'']"
  let ?v3 = "world ([] :: (string + Response) list)
               [''http://primary/now'', ''http://candidate/now'', ''http://secondary/now'']"
  have gate: "AllowUnsafeOperations ?off \<or> isSafeOperation (Method ?r)"
    and gate_on: "AllowUnsafeOperations ?on \<or> isSafeOperation (Method ?r)"
    by (rule sample_gate)+
  have p: "getContent sample_env ?r (CreateUrl sample_env (RequestURL ?r) (Primary ?off)) ?w
             = ((''[1]'', 200, Map.empty, None), ?w1)"
    by (simp add: getContent_def sample_defs)
  have c: "getContent sample_env ?r (CreateUrl sample_env (RequestURL ?r) (Candidate ?off)) ?w1
             = ((''[1]'', 201, Map.empty, None), ?w2)"
    by (simp add: getContent_def sample_defs)
  have d: "(200::int) \<noteq> 201" by simp
  have n: "\<not> NoiseDetection ?off" by (simp add: sample_config_def)
  note r = status_mismatch_verdict_false [OF gate p c d]
  have e: "compared ?w = []" by (simp add: world_def)
  have p': "getContent sample_env ?r (CreateUrl sample_env (RequestURL ?r) (Primary ?on)) ?v
             = ((''[1]'', 200, Map.empty, None), ?v1)"
    by (simp add: getContent_def sample_defs)
  have c': "getContent sample_env ?r (CreateUrl sample_env (RequestURL ?r) (Candidate ?on)) ?v1
             = ((''[1]'', 201, Map.empty, None), ?v2)"
    by (simp add: getContent_def sample_defs)
  have s': "getContent sample_env ?r (CreateUrl sample_env (RequestURL ?r) (Secondary ?on)) ?v2
             = ((''[2]'', 200, Map.empty, None), ?v3)"
    by (simp add: getContent_def sample_defs)
  have dt: "Detect sample_env ''[1]'' ''[2]'' = Inr ()"
    by (simp add: sample_env_def)
  note r' = status_mismatch_verdict_false [OF gate_on p' c' d]
  from r' s' dt have "snd (fst (Diferencia sample_env ?on ?r ?v)) = None" by blast
  moreover from r' have "fst (fst (Diferencia sample_env ?on ?r ?v)) = False"
    by (simp add: verdict_def)
  ultimately have r'': "fst (Diferencia sample_env ?on ?r ?v) = (False, None)"
    by (simp add: prod_eq_iff)
  from gate p c d n r e p' c' s' dt r'' show ?thesis by (intro conjI) simp_all
qed

text \<open>
  C2 as stated asks for a recorded status difference and for the bodies to be
  compared all the same. With Primary 200 and Candidate 201 the whole result is the
  verdict false without an error, and the list of comparisons stays empty:
  \<open>compareResult\<close> answers false before it reaches \<open>json.CompareDocuments\<close>.
\<close>

theorem status_mismatch_counterexample:
  "StatusCode \<lparr>Body = (''[1]'', None), StatusCode = 200, Header = Map.empty\<rparr>
     \<noteq> StatusCode \<lparr>Body = (''[1]'', None), StatusCode = 201, Header = Map.empty\<rparr>
   \<and> Diferencia sample_env (sample_config False []) (sample_request ''GET'')
        (world [Inr \<lparr>Body = (''[1]'', None), StatusCode = 200, Header = Map.empty\<rparr>,
                Inr \<lparr>Body = (''[1]'', None), StatusCode = 201, Header = Map.empty\<rparr>] [])
     = ((False, None),
        \<lparr>client = [], calls = [''http://primary/now'', ''http://candidate/now''],
         compared = [], exported = []\<rparr>)"
  by (simp add: run_defs sample_defs)

section \<open>Headers\<close>

text \<open>
  In \<^verbatim>\<open>proxy.go\<close> itself \<open>DiferenciaConfiguration\<close> has no switch for comparing
  headers and \<open>Diferencia\<close> drops the headers that \<open>getContent\<close> returns:
  whatever the headers of the upstream responses are rewritten to, the verdict, the
  error and everything the run does stay the same.
\<close>

lemma Diferencia_drops_headers:
  "Diferencia (with_headers h env) Config r w = Diferencia env Config r w"
  by (simp add: Diferencia_def getContent_with_headers with_headers_fields
      Diferencia_compare_with_headers Let_def
      split: prod.splits option.splits sum.splits)








section \<open>Identical responses\<close>

text \<open>
  C4, as amended. For a request that passes the safety gate, when the Primary and
  Candidate calls succeed with the same body and the same status code,
  \<open>Diferencia\<close> returns the verdict true without an error, whatever the mode,
  provided that the document comparison accepts a document compared with itself
  under that mode and, when \<open>NoiseDetection\<close> is on, that the Secondary call
  succeeds with the status code of the Primary, that \<open>Detect\<close> succeeds and that
  \<open>Remove\<close> returns the same document for both sides (it is then this document
  that is compared with itself).
\<close>

theorem identical_responses_equal:
  assumes gate: "AllowUnsafeOperations Config \<or> isSafeOperation (Method r)"
    and p: "getContent env r (CreateUrl env (RequestURL r) (Primary Config)) w
              = ((b, st, ph, None), w1)"
    and c: "getContent env r (CreateUrl env (RequestURL r) (Candidate Config)) w1
              = ((b, st, ch, None), w2)"
    and plain: "\<not> NoiseDetection Config \<Longrightarrow>
                  CompareDocuments env b b (Difference_String (DifferenceMode Config))"
    and noisy: "NoiseDetection Config \<Longrightarrow>
                  getContent env r (CreateUrl env (RequestURL r) (Secondary Config)) w2
                    = ((sb, st, sh, None), w3)
                  \<and> Detect env b sb = Inr n
                  \<and> Remove env n b b = (x, x, rerr)
                  \<and> CompareDocuments env x x (Difference_String (DifferenceMode Config))"
  shows "fst (Diferencia env Config r w) = (True, None)"
proof -
  have "\<exists>w'. Diferencia_compare env Config r (CreateUrl env (RequestURL r) (Primary Config))
          b st (CreateUrl env (RequestURL r) (Candidate Config)) b st w2 = (Inr True, w')"
  proof (cases "NoiseDetection Config")
    case False
    with plain show ?thesis
      by (simp add: Diferencia_compare_def compareResult_def)
  next
    case True
    with noisy show ?thesis
      by (simp add: Diferencia_compare_def compareResult_def)
  qed
  then obtain w' where
    "Diferencia_compare env Config r (CreateUrl env (RequestURL r) (Primary Config))
          b st (CreateUrl env (RequestURL r) (Candidate Config)) b st w2 = (Inr True, w')" ..
  with gate p c show ?thesis
    by (auto simp: Diferencia_def)
qed

text \<open>
  The same body and status from Primary and Candidate, once with noise detection on
  and a Secondary of status 200, once with noise detection off.
\<close>

theorem identical_responses_equal_witness:
  "(AllowUnsafeOperations (sample_config True [])
      \<or> isSafeOperation (Method (sample_request ''GET'')))
   \<and> getContent sample_env (sample_request ''GET'')
        (CreateUrl sample_env (RequestURL (sample_request ''GET''))
           (Primary (sample_config True [])))
        (world [respond 200 ''[1]'' Map.empty, respond 200 ''[1]'' Map.empty,
                respond 200 ''[2]'' Map.empty] [])
       = ((''[1]'', 200, Map.empty, None),
          world [respond 200 ''[1]'' Map.empty, respond 200 ''[2]'' Map.empty]
            [''http://primary/now''])
   \<and> getContent sample_env (sample_request ''GET'')
        (CreateUrl sample_env (RequestURL (sample_request ''GET''))
           (Candidate (sample_config True [])))
        (world [respond 200 ''[1]'' Map.empty, respond 200 ''[2]'' Map.empty]
           [''http://primary/now''])
       = ((''[1]'', 200, Map.empty, None),
          world [respond 200 ''[2]'' Map.empty]
            [''http://primary/now'', ''http://candidate/now''])
   \<and> NoiseDetection (sample_config True [])
   \<and> getContent sample_env (sample_request ''GET'')
        (CreateUrl sample_env (RequestURL (sample_request ''GET''))
           (Secondary (sample_config True [])))
        (world [respond 200 ''[2]'' Map.empty]
           [''http://primary/now'', ''http://candidate/now''])
       = ((''[2]'', 200, Map.empty, None),
          world [] [''http://primary/now'', ''http://candidate/now'', ''http://secondary/now''])
   \<and> Detect sample_env ''[1]'' ''[2]'' = Inr ()
   \<and> Remove sample_env () ''[1]'' ''[1]'' = (''[1]'', ''[1]'', None)
   \<and> CompareDocuments sample_env ''[1]'' ''[1]''
        (Difference_String (DifferenceMode (sample_config True [])))
   \<and> fst (Diferencia sample_env (sample_config True []) (sample_request ''GET'')
        (world [respond 200 ''[1]'' Map.empty, respond 200 ''[1]'' Map.empty,
                respond 200 ''[2]'' Map.empty] [])) = (True, None)
   \<and> \<not> NoiseDetection (sample_config False [])
   \<and> getContent sample_env (sample_request ''GET'')
        (CreateUrl sample_env (RequestURL (sample_request ''GET''))
           (Primary (sample_config False [])))
        (world [respond 200 ''[1]'' Map.empty, respond 200 ''[1]'' Map.empty] [])
       = ((''[1]'', 200, Map.empty, None),
          world [respond 200 ''[1]'' Map.empty] [''http://primary/now''])
   \<and> getContent sample_env (sample_request ''GET'')
        (CreateUrl sample_env (RequestURL (sample_request ''GET''))
           (Candidate (sample_config False [])))
        (world [respond 200 ''[1]'' Map.empty] [''http://primary/now''])
       = ((''[1]'', 200, Map.empty, None),
          world [] [''http://primary/now'', ''http://candidate/now''])
   \<and> CompareDocuments sample_env ''[1]'' ''[1]''
        (Difference_String (DifferenceMode (sample_config False [])))
   \<and> fst (Diferencia sample_env (sample_config False []) (sample_request ''GET'')
        (world [respond 200 ''[1]'' Map.empty, respond 200 ''[1]'' Map.empty] []))
       = (True, None)"
proof -
  let ?r = "sample_request ''GET''"
  let ?on = "sample_config True []"
  let ?off = "sample_config False []"
  let ?w = "world [respond 200 ''[1]'' Map.empty, respond 200 ''[1]'' Map.empty,
                respond 200 ''[2]'' Map.empty] []"
  let ?w1 = "world [respond 200 ''[1]'' Map.empty, respond 200 ''[2]'' Map.empty]
            [''http://primary/now'']"
  let ?w2 = "world [respond 200 ''[2]'' Map.empty]
            [''http://primary/now'', ''http://candidate/now'']"
  let ?w3 = "world ([] :: (string + Response) list)
               [''http://primary/now'', ''http://candidate/now'', ''http://secondary/now'']"
  let ?v = "world [respond 200 ''[1]'' Map.empty, respond 200 ''[1]'' Map.empty] []"
  let ?v1 = "world [respond 200 ''[1]'' Map.empty] [''http://primary/now'']"
  let ?v2 = "world ([] :: (string + Response) list)
               [''http://primary/now'', ''http://candidate/now'']"
  have gate_on: "AllowUnsafeOperations ?on \<or> isSafeOperation (Method ?r)"
    and gate_off: "AllowUnsafeOperations ?off \<or> isSafeOperation (Method ?r)"
    by (rule sample_gate)+
  have n_on: "NoiseDetection ?on" and n_off: "\<not> NoiseDetection ?off"
    by (simp_all add: sample_config_def)
  have p: "getContent sample_env ?r (CreateUrl sample_env (RequestURL ?r) (Primary ?on)) ?w
             = ((''[1]'', 200, Map.empty, None), ?w1)"
    by (simp add: getContent_def sample_defs)
  have c: "getContent sample_env ?r (CreateUrl sample_env (RequestURL ?r) (Candidate ?on)) ?w1
             = ((''[1]'', 200, Map.empty, None), ?w2)"
    by (simp add: getContent_def sample_defs)
  have s: "getContent sample_env ?r (CreateUrl sample_env (RequestURL ?r) (Secondary ?on)) ?w2
             = ((''[2]'', 200, Map.empty, None), ?w3)"
    by (simp add: getContent_def sample_defs)
  have d: "Detect sample_env ''[1]'' ''[2]'' = Inr ()"
    and rm: "Remove sample_env () ''[1]'' ''[1]'' = (''[1]'', ''[1]'', None)"
    and cmp_on: "CompareDocuments sample_env ''[1]'' ''[1]''
                   (Difference_String (DifferenceMode ?on))"
    and cmp_off: "CompareDocuments sample_env ''[1]'' ''[1]''
                   (Difference_String (DifferenceMode ?off))"
    by (simp_all add: sample_env_def)
  have p': "getContent sample_env ?r (CreateUrl sample_env (RequestURL ?r) (Primary ?off)) ?v
             = ((''[1]'', 200, Map.empty, None), ?v1)"
    by (simp add: getContent_def sample_defs)
  have c': "getContent sample_env ?r (CreateUrl sample_env (RequestURL ?r) (Candidate ?off)) ?v1
             = ((''[1]'', 200, Map.empty, None), ?v2)"
    by (simp add: getContent_def sample_defs)
  have r_on: "fst (Diferencia sample_env ?on ?r ?w) = (True, None)"
    by (rule identical_responses_equal [OF gate_on p c, where sb = "''[2]''" and n = "()"
          and x = "''[1]''" and rerr = None and sh = Map.empty and ?w3.0 = ?w3])
      (use n_on s d rm cmp_on in simp_all)
  have r_off: "fst (Diferencia sample_env ?off ?r ?v) = (True, None)"
    by (rule identical_responses_equal [OF gate_off p' c', where sb = "[]" and n = "()"
          and x = "[]" and rerr = None and sh = Map.empty and ?w3.0 = ?v2])
      (use n_off cmp_off in simp_all)
  from gate_on p c n_on s d rm cmp_on r_on n_off p' c' cmp_off r_off
  show ?thesis by (intro conjI) simp_all
qed

text \<open>
  C4 as stated holds with \<open>NoiseDetection\<close> on whatever the Secondary does. Primary
  and Candidate answer 200 with the same body and the Secondary answers 500: the
  verdict is false, with an error of code 400.
\<close>

theorem identical_responses_counterexample:
  "Diferencia sample_env (sample_config True []) (sample_request ''GET'')
        (world [respond 200 ''[1]'' Map.empty, respond 200 ''[1]'' Map.empty,
                respond 500 ''[1]'' Map.empty] [])
     = ((False,
         Some \<lparr>code = 400,
               message = ''Status code between http://primary/now(200) and http://secondary/now(500) are different''\<rparr>),
        \<lparr>client = [],
         calls = [''http://primary/now'', ''http://candidate/now'', ''http://secondary/now''],
         compared = [], exported = []\<rparr>)"
proof -
  have "itoa 200 = ''200''" "itoa 500 = ''500''" by code_simp+
  then show ?thesis by (simp add: run_defs sample_defs)
qed

section \<open>The export\<close>

text \<open>
  C7. With \<open>StoreResults\<close> set and \<open>NoiseDetection\<close> on, the record handed to
  the exporter should hold the URL, body and status code of the Secondary call. The
  Secondary is called at \<open>http://secondary/now\<close> and answers 200 with the body
  \<open>[2]\<close>; the exported record holds, in place of the Secondary interaction, the
  interaction built from the empty URL, the empty body and the status 0.
\<close>

theorem export_drops_secondary:
  "getContent sample_env (sample_request ''GET'') ''http://secondary/now''
        (world [respond 200 ''[2]'' Map.empty]
           [''http://primary/now'', ''http://candidate/now''])
     = ((''[2]'', 200, Map.empty, None),
        world [] [''http://primary/now'', ''http://candidate/now'', ''http://secondary/now''])
   \<and> Diferencia sample_env (sample_config True ''results.json'') (sample_request ''GET'')
        (world [respond 200 ''[1]'' Map.empty, respond 200 ''[1]'' Map.empty,
                respond 200 ''[2]'' Map.empty] [])
     = ((True, None),
        \<lparr>client = [],
         calls = [''http://primary/now'', ''http://candidate/now'', ''http://secondary/now''],
         compared = [(''[1]'', ''[1]'', ''Strict'')],
         exported =
           [(''results.json'',
             CreateInteractions (CreateInteraction ''http://primary/now'' ''[1]'' 200)
               (CreateInteraction [] [] 0)
               (CreateInteraction ''http://candidate/now'' ''[1]'' 200)
               ''Strict'' True)]\<rparr>)"
  by (simp add: run_defs sample_defs Difference_String_values)

text \<open>
  The same holds of every run that exports with noise detection on.
\<close>

lemma export_secondary_is_zero_valued:
  assumes "Diferencia env Config r w = ((res, None), w')"
    and "IsStoreResultsSet Config" and "NoiseDetection Config"
  shows "\<exists>p c. exported w' = exported w @
           [(StoreResults Config,
             CreateInteractions p (CreateInteraction [] [] 0) c
               (Difference_String (DifferenceMode Config)) res)]"
proof -
  have cmp: "exported w3 = exported w0"
    if "Diferencia_compare env Config r pu pb ps cu cb cs w0 = (y, w3)"
    for pu pb ps cu cb cs w0 y w3
    using that
    by (auto simp: Diferencia_compare_def compareResult_def Let_def
        dest: getContent_keeps_logs(2)
        split: if_splits prod.splits option.splits sum.splits)
  from assms show ?thesis
    by (auto simp: Diferencia_def Diferencia_export_def Let_def
        dest!: getContent_keeps_logs(2) cmp
        split: if_splits prod.splits option.splits sum.splits)
qed

section \<open>The handler\<close>

text \<open>
  C8. The handler should write one status code and, after an error, the message of
  the error as the body. For a POST request refused by the safety gate it calls
  \<open>WriteHeader\<close> three times, with 405, 500 and 412, and writes the message of the
  error followed by the text of \<open>Error()\<close>.
\<close>

theorem handler_writes_after_error:
  "diferenciaHandler sample_env (sample_config False []) (sample_request ''POST'')
        (world [respond 200 ''[1]'' Map.empty, respond 200 ''[1]'' Map.empty] [])
     = ([WriteHeader 405,
         Fprintf ''Unsafe operations are not allowed and POST method has been received'',
         WriteHeader 500,
         Fprintf ''with message: Unsafe operations are not allowed and POST method has been received, and code 405'',
         WriteHeader 412],
        world [respond 200 ''[1]'' Map.empty, respond 200 ''[1]'' Map.empty] [])"
proof -
  have "itoa 405 = ''405''" by code_simp
  then show ?thesis
    by (simp add: diferenciaHandler_def DiferenciaError_Error_def run_defs sample_defs)
qed

text \<open>
  After a verdict without an error the handler writes the one status code, 200 or
  412, and no body; after any error it writes three status codes and calls
  \<open>fmt.Fprintf\<close> twice, with the message and with the text of \<open>Error()\<close> as the
  format, and the client receives the code of the error.
\<close>

lemma handler_writes_on_verdict:
  assumes "Diferencia env Config r w = ((res, None), w')"
  shows "fst (diferenciaHandler env Config r w) = [WriteHeader (if res then 200 else 412)]"
  using assms by (simp add: diferenciaHandler_def http_defs)

lemma handler_writes_on_error:
  assumes "Diferencia env Config r w = ((res, Some de), w')"
  shows "sent_status (fst (diferenciaHandler env Config r w)) = Some (code de)"
    and "status_writes (fst (diferenciaHandler env Config r w))
           = [code de, 500, if res then 200 else 412]"
    and "fprintf_formats (fst (diferenciaHandler env Config r w))
           = [message de, DiferenciaError_Error de]"
  using assms by (simp_all add: diferenciaHandler_def http_defs)

section \<open>Updating the configuration\<close>

text \<open>
  C9. If a present field of the patch does not parse (\<open>Mode\<close> is not Strict,
  Subset or Schema, or \<open>NoiseDetection\<close> is not \<open>true\<close> or \<open>false\<close>),
  \<open>UpdateConfiguration\<close> returns an error and the configuration as it was;
  if every present field parses, it returns no error and every present field is
  committed.
\<close>

theorem update_configuration_atomic:
  "(mode_unparsable patch \<or> noise_unparsable patch \<longrightarrow>
      snd (UpdateConfiguration conf patch) \<noteq> None
      \<and> fst (UpdateConfiguration conf patch) = conf)
   \<and> (\<not> mode_unparsable patch \<and> \<not> noise_unparsable patch \<longrightarrow>
      snd (UpdateConfiguration conf patch) = None
      \<and> (\<forall>v. UpdatePrimary patch = Some v \<longrightarrow> Primary (fst (UpdateConfiguration conf patch)) = v)
      \<and> (\<forall>v. UpdateSecondary patch = Some v \<longrightarrow>
             Secondary (fst (UpdateConfiguration conf patch)) = v)
      \<and> (\<forall>v. UpdateCandidate patch = Some v \<longrightarrow>
             Candidate (fst (UpdateConfiguration conf patch)) = v)
      \<and> (\<forall>v. UpdateMode patch = Some v \<longrightarrow>
             Difference_String (DifferenceMode (fst (UpdateConfiguration conf patch))) = v)
      \<and> (\<forall>v. UpdateNoiseDetection patch = Some v \<longrightarrow>
             NoiseDetection (fst (UpdateConfiguration conf patch)) = (v = ''true'')))"
  by (auto simp: UpdateConfiguration_def mode_unparsable_def noise_unparsable_def
      parse_optional_def parse_mode_def parse_bool_literal_def NewDifference_def
      commit_field_def Difference_String_values
      split: option.splits sum.splits if_splits)

text \<open>
  The patch with the mode \<open>incorrect\<close> is refused; the patch that turns noise
  detection on is committed.
\<close>

theorem update_configuration_atomic_witness:
  "(mode_unparsable (no_patch\<lparr>UpdateMode := Some ''incorrect''\<rparr>)
      \<or> noise_unparsable (no_patch\<lparr>UpdateMode := Some ''incorrect''\<rparr>))
   \<and> snd (UpdateConfiguration (sample_config False [])
             (no_patch\<lparr>UpdateMode := Some ''incorrect''\<rparr>)) \<noteq> None
   \<and> fst (UpdateConfiguration (sample_config False [])
             (no_patch\<lparr>UpdateMode := Some ''incorrect''\<rparr>)) = sample_config False []
   \<and> \<not> mode_unparsable (no_patch\<lparr>UpdateNoiseDetection := Some ''true''\<rparr>)
   \<and> \<not> noise_unparsable (no_patch\<lparr>UpdateNoiseDetection := Some ''true''\<rparr>)
   \<and> UpdateNoiseDetection (no_patch\<lparr>UpdateNoiseDetection := Some ''true''\<rparr>) = Some ''true''
   \<and> snd (UpdateConfiguration (sample_config False [])
             (no_patch\<lparr>UpdateNoiseDetection := Some ''true''\<rparr>)) = None
   \<and> NoiseDetection (fst (UpdateConfiguration (sample_config False [])
             (no_patch\<lparr>UpdateNoiseDetection := Some ''true''\<rparr>))) = (''true'' = ''true'')"
proof -
  let ?bad = "no_patch\<lparr>UpdateMode := Some ''incorrect''\<rparr>"
  let ?good = "no_patch\<lparr>UpdateNoiseDetection := Some ''true''\<rparr>"
  let ?conf = "sample_config False []"
  have a: "mode_unparsable ?bad \<or> noise_unparsable ?bad"
    by (simp add: mode_unparsable_def no_patch_def)
  have b: "\<not> mode_unparsable ?good" and c: "\<not> noise_unparsable ?good"
    by (simp_all add: mode_unparsable_def noise_unparsable_def no_patch_def)
  have d: "UpdateNoiseDetection ?good = Some ''true''" by simp
  from update_configuration_atomic [of ?bad ?conf] a
  have r1: "snd (UpdateConfiguration ?conf ?bad) \<noteq> None
            \<and> fst (UpdateConfiguration ?conf ?bad) = ?conf"
    by (elim conjE) (erule mp)
  from update_configuration_atomic [of ?good ?conf] b c d
  have r2: "snd (UpdateConfiguration ?conf ?good) = None
            \<and> NoiseDetection (fst (UpdateConfiguration ?conf ?good)) = (''true'' = ''true'')"
    by blast
  from a b c d r1 r2 show ?thesis by (intro conjI) simp_all
qed

section \<open>The mode codec\<close>

text \<open>
  C10. \<open>NewDifference\<close> inverts \<open>Difference.String\<close> on Strict, Subset and Schema
  without an error; on every other string \<open>NewDifference\<close> returns an error;
  \<open>Difference.String\<close> never reads its array outside the bounds, and outside the
  range from Strict to Schema it returns \<open>Unknown\<close>.
\<close>

theorem difference_codec:
  "(\<forall>d \<in> {Strict, Subset, Schema}. NewDifference (Difference_String d) = (d, None))
   \<and> (\<forall>s. s \<notin> {''Strict'', ''Subset'', ''Schema''} \<longrightarrow> snd (NewDifference s) \<noteq> None)
   \<and> (\<forall>d. Difference_String_checked d \<noteq> None)
   \<and> (\<forall>d. d < Strict \<or> d > Schema \<longrightarrow>
          Difference_String_checked d = Some ''Unknown'' \<and> Difference_String d = ''Unknown'')"
proof (intro conjI ballI allI impI)
  fix d assume "d \<in> {Strict, Subset, Schema}"
  then have "d = Strict \<or> d = Subset \<or> d = Schema" by simp
  then show "NewDifference (Difference_String d) = (d, None)"
    by (elim disjE) (simp_all add: Difference_String_values NewDifference_def)
next
  fix s :: string assume "s \<notin> {''Strict'', ''Subset'', ''Schema''}"
  then show "snd (NewDifference s) \<noteq> None"
    by (simp add: NewDifference_def)
next
  fix d :: Difference
  show "Difference_String_checked d \<noteq> None"
    by (simp add: Difference_String_checked_def go_index_def names_def Strict_def Schema_def)
next
  fix d :: Difference assume "d < Strict \<or> d > Schema"
  then show "Difference_String_checked d = Some ''Unknown''"
    by (auto simp: Difference_String_checked_def)
next
  fix d :: Difference assume "d < Strict \<or> d > Schema"
  then show "Difference_String d = ''Unknown''"
    by (auto simp: Difference_String_def Difference_String_checked_def)
qed

text \<open>
  The mode Subset, the string \<open>incorrect\<close> and the value 7.
\<close>

theorem difference_codec_witness:
  "Subset \<in> {Strict, Subset, Schema}
   \<and> NewDifference (Difference_String Subset) = (Subset, None)
   \<and> ''incorrect'' \<notin> {''Strict'', ''Subset'', ''Schema''}
   \<and> snd (NewDifference ''incorrect'') \<noteq> None
   \<and> ((7::int) < Strict \<or> 7 > Schema)
   \<and> Difference_String_checked 7 = Some ''Unknown''"
proof -
  have a: "Subset \<in> {Strict, Subset, Schema}" by simp
  have b: "''incorrect'' \<notin> {''Strict'', ''Subset'', ''Schema''}" by simp
  have c: "(7::int) < Strict \<or> 7 > Schema" by (simp add: Schema_def)
  have r1: "NewDifference (Difference_String Subset) = (Subset, None)"
    using difference_codec a by (elim conjE) (rule bspec)
  have r2: "snd (NewDifference ''incorrect'') \<noteq> None"
    using difference_codec b by (elim conjE) (drule spec [of _ "''incorrect''"], rule mp)
  have r3: "Difference_String_checked 7 = Some ''Unknown''"
    using difference_codec c
    by (elim conjE)
      (drule spec [of "\<lambda>d. d < Strict \<or> d > Schema \<longrightarrow> _ d" 7], simp)
  from a b c r1 r2 r3 show ?thesis by (intro conjI)
qed

end
